theory Spec2Isabelle
  imports Complex_Main
begin

section \<open>Python values used by \<^verbatim>\<open>bot.py\<close>\<close>

text \<open>
  The bot is one Python module, \<^verbatim>\<open>src/bot.py\<close>. Its parser
  \<^verbatim>\<open>parse_expense_message\<close> is built from four library operations:
  \<^verbatim>\<open>str.split\<close>, \<^verbatim>\<open>str.strip\<close>, \<^verbatim>\<open>datetime.strptime\<close> and \<^verbatim>\<open>float\<close>.
  They are modelled here as CPython 3.11 executes them. A Python \<^verbatim>\<open>str\<close> is a
  \<^typ>\<open>string\<close>; a \<^typ>\<open>char\<close> stands for the code point of the same number, so the
  model covers the messages whose code points are below 256.
\<close>

subsection \<open>Exceptions\<close>

text \<open>
  \<^verbatim>\<open>handle_expense\<close> distinguishes two classes of exception: \<^verbatim>\<open>ValueError\<close> (with its
  subclasses) and every other \<^verbatim>\<open>Exception\<close>. Each carries the text that \<^verbatim>\<open>str(e)\<close>
  returns.
\<close>

datatype exn = ValueError string | OtherException string

fun exn_str :: "exn \<Rightarrow> string" where
  "exn_str (ValueError m) = m"
| "exn_str (OtherException m) = m"

fun is_ValueError :: "exn \<Rightarrow> bool" where
  "is_ValueError (ValueError m) = True"
| "is_ValueError (OtherException m) = False"

subsection \<open>Strings\<close>

text \<open>
  \<^verbatim>\<open>str.isspace\<close> on one character: the code points below 256 that Python counts as
  whitespace are 9 to 13, 28 to 32, 133 and 160.
\<close>

definition isspace :: "char \<Rightarrow> bool" where
  "isspace c = (c \<in> set [CHR 0x09, CHR 0x0A, CHR 0x0B, CHR 0x0C, CHR 0x0D,
                           CHR 0x1C, CHR 0x1D, CHR 0x1E, CHR 0x1F, CHR 0x20,
                           CHR 0x85, CHR 0xA0])"

text \<open>\<^verbatim>\<open>s.strip()\<close>: drop the whitespace at both ends.\<close>

definition str_strip :: "string \<Rightarrow> string" where
  "str_strip s = rev (dropWhile isspace (rev (dropWhile isspace s)))"

text \<open>
  \<^verbatim>\<open>s.split(sep)\<close> for a separator of one character: one more segment than there are
  separators; the empty string gives one empty segment.
\<close>

fun str_split :: "char \<Rightarrow> string \<Rightarrow> string list" where
  "str_split sep [] = [[]]"
| "str_split sep (c # cs) =
     (if c = sep then [] # str_split sep cs
      else (case str_split sep cs of
              [] \<Rightarrow> [[c]]
            | seg # segs \<Rightarrow> (c # seg) # segs))"

text \<open>\<^verbatim>\<open>sep.join(segs)\<close> for a separator of one character.\<close>

fun str_join :: "char \<Rightarrow> string list \<Rightarrow> string" where
  "str_join sep [] = []"
| "str_join sep [s] = s"
| "str_join sep (s # t # ts) = s @ sep # str_join sep (t # ts)"

text \<open>The decimal digits below code point 256 are the ASCII digits.\<close>

definition isdecimal :: "char \<Rightarrow> bool" where
  "isdecimal c = (c \<in> set ''0123456789'')"

definition digit_value :: "char \<Rightarrow> int" where
  "digit_value c = of_char c - 48"

definition int_of_digits :: "string \<Rightarrow> int" where
  "int_of_digits ds = foldl (\<lambda>n c. 10 * n + digit_value c) 0 ds"

text \<open>
  \<^verbatim>\<open>int(s)\<close> on the strings the date pattern can capture: decimal digits, after one
  space at most.
\<close>

definition py_int :: "string \<Rightarrow> int" where
  "py_int s = int_of_digits (str_strip s)"

text \<open>
  \<^verbatim>\<open>repr(s)\<close>: the string between quotes, with the unprintable characters escaped.
  The quote is the double quote exactly when the string has a single quote and no double
  quote.
\<close>

definition hex_digit :: "nat \<Rightarrow> char" where
  "hex_digit n = ''0123456789abcdef'' ! (n mod 16)"

definition isprintable :: "char \<Rightarrow> bool" where
  "isprintable c =
     (let n = (of_char c :: nat)
      in (32 \<le> n \<and> n < 127) \<or> (161 \<le> n \<and> n \<noteq> 173))"

definition repr_char :: "char \<Rightarrow> char \<Rightarrow> string" where
  "repr_char quote c =
     (if c = quote \<or> c = CHR 0x5C then [CHR 0x5C, c]
      else if c = CHR 0x09 then [CHR 0x5C, CHR ''t'']
      else if c = CHR 0x0A then [CHR 0x5C, CHR ''n'']
      else if c = CHR 0x0D then [CHR 0x5C, CHR ''r'']
      else if isprintable c then [c]
      else [CHR 0x5C, CHR ''x'', hex_digit (of_char c div 16), hex_digit (of_char c)])"

definition py_repr :: "string \<Rightarrow> string" where
  "py_repr s =
     (let quote = (if CHR 0x27 \<in> set s \<and> CHR 0x22 \<notin> set s then CHR 0x22 else CHR 0x27)
      in quote # concat (map (repr_char quote) s) @ [quote])"

subsection \<open>Dates\<close>

text \<open>A \<^verbatim>\<open>datetime.date\<close>: year, month and day.\<close>

record pydate =
  year :: int
  month :: int
  day :: int

definition is_leap :: "int \<Rightarrow> bool" where
  "is_leap y = (y mod 4 = 0 \<and> (y mod 100 \<noteq> 0 \<or> y mod 400 = 0))"

definition days_in_month :: "int \<Rightarrow> int \<Rightarrow> int" where
  "days_in_month y m =
     (if m = 2 then (if is_leap y then 29 else 28)
      else if m \<in> {4, 6, 9, 11} then 30 else 31)"

text \<open>\<^verbatim>\<open>str(n)\<close> for an integer.\<close>

definition digit_char :: "nat \<Rightarrow> char" where
  "digit_char n = ''0123456789'' ! (n mod 10)"

fun digits :: "nat \<Rightarrow> string" where
  "digits n = (if n < 10 then [digit_char n] else digits (n div 10) @ [digit_char (n mod 10)])"

declare digits.simps [simp del]

definition decimal :: "int \<Rightarrow> string" where
  "decimal n = (if n < 0 then CHR ''-'' # digits (nat (- n)) else digits (nat n))"

text \<open>
  The constructor \<^verbatim>\<open>date(year, month, day)\<close> checks its arguments and raises
  \<^verbatim>\<open>ValueError\<close> outside 1..9999, 1..12 and the days of the month.
\<close>

definition py_date :: "int \<Rightarrow> int \<Rightarrow> int \<Rightarrow> exn + pydate" where
  "py_date y m d =
     (if \<not> (1 \<le> y \<and> y \<le> 9999) then
        Inl (ValueError (''year '' @ decimal y @ '' is out of range''))
      else if \<not> (1 \<le> m \<and> m \<le> 12) then
        Inl (ValueError ''month must be in 1..12'')
      else if \<not> (1 \<le> d \<and> d \<le> days_in_month y m) then
        Inl (ValueError ''day is out of range for month'')
      else Inr \<lparr>year = y, month = m, day = d\<rparr>)"

text \<open>\<^verbatim>\<open>d.isoformat()\<close>: \<^verbatim>\<open>%04d-%02d-%02d\<close>.\<close>

definition zfill :: "nat \<Rightarrow> string \<Rightarrow> string" where
  "zfill w s = replicate (w - length s) (CHR ''0'') @ s"

definition isoformat :: "pydate \<Rightarrow> string" where
  "isoformat d =
     zfill 4 (decimal (year d)) @ ''-'' @ zfill 2 (decimal (month d)) @ ''-''
       @ zfill 2 (decimal (day d))"


subsection \<open>\<^verbatim>\<open>datetime.strptime(s, '%Y-%m-%d')\<close>\<close>

text \<open>
  \<^verbatim>\<open>_strptime\<close> turns the format into the regular expression
  \<^verbatim>\<open>(?P<Y>\d\d\d\d)-(?P<m>1[0-2]|0[1-9]|[1-9])-(?P<d>3[0-1]|[1-2]\d|0[1-9]|[1-9]| [1-9])\<close>
  and matches it at the start of the string. A pattern is modelled by the list of its
  matches in the order a backtracking matcher tries them: each is the text consumed and
  the text left.
\<close>

type_synonym matcher = "string \<Rightarrow> (string \<times> string) list"

definition re_class :: "(char \<Rightarrow> bool) \<Rightarrow> matcher" where
  "re_class P s = (case s of [] \<Rightarrow> [] | c # cs \<Rightarrow> if P c then [([c], cs)] else [])"

definition re_seq :: "matcher \<Rightarrow> matcher \<Rightarrow> matcher" where
  "re_seq p q s = concat (map (\<lambda>(a, r). map (\<lambda>(b, r'). (a @ b, r')) (q r)) (p s))"

definition re_alt :: "matcher list \<Rightarrow> matcher" where
  "re_alt ps s = concat (map (\<lambda>p. p s) ps)"

definition re_range :: "char \<Rightarrow> char \<Rightarrow> matcher" where
  "re_range lo hi = re_class (\<lambda>c. (of_char lo :: nat) \<le> of_char c \<and> (of_char c :: nat) \<le> of_char hi)"

definition re_lit :: "char \<Rightarrow> matcher" where
  "re_lit x = re_class (\<lambda>c. c = x)"

definition re_digit :: matcher where
  "re_digit = re_class isdecimal"

definition re_Y :: matcher where
  "re_Y = re_seq re_digit (re_seq re_digit (re_seq re_digit re_digit))"

definition re_m :: matcher where
  "re_m = re_alt [re_seq (re_lit CHR ''1'') (re_range CHR ''0'' CHR ''2''),
                  re_seq (re_lit CHR ''0'') (re_range CHR ''1'' CHR ''9''),
                  re_range CHR ''1'' CHR ''9'']"

definition re_d :: matcher where
  "re_d = re_alt [re_seq (re_lit CHR ''3'') (re_range CHR ''0'' CHR ''1''),
                  re_seq (re_range CHR ''1'' CHR ''2'') re_digit,
                  re_seq (re_lit CHR ''0'') (re_range CHR ''1'' CHR ''9''),
                  re_range CHR ''1'' CHR ''9'',
                  re_seq (re_lit CHR '' '') (re_range CHR ''1'' CHR ''9'')]"

text \<open>
  The matches of the whole pattern, with the three groups and the text left over.
  \<^verbatim>\<open>format_regex.match\<close> returns the first.
\<close>

definition format_regex :: "string \<Rightarrow> (string \<times> string \<times> string \<times> string) list" where
  "format_regex s =
     concat (map (\<lambda>(Y, r1).
       concat (map (\<lambda>(h1, r2).
         concat (map (\<lambda>(m, r3).
           concat (map (\<lambda>(h2, r4).
             map (\<lambda>(d, r5). (Y, m, d, r5)) (re_d r4))
           (re_lit CHR ''-'' r3)))
         (re_m r2)))
       (re_lit CHR ''-'' r1)))
     (re_Y s))"

text \<open>
  No match: \<^verbatim>\<open>ValueError\<close>. Text left after the match: \<^verbatim>\<open>ValueError\<close>. Otherwise the
  groups are converted with \<^verbatim>\<open>int\<close> and the date is built, which raises \<^verbatim>\<open>ValueError\<close>
  for year 0 and for a day the month does not have.
\<close>

definition strptime :: "string \<Rightarrow> exn + pydate" where
  "strptime data_string =
     (case format_regex data_string of
        [] \<Rightarrow> Inl (ValueError (''time data '' @ py_repr data_string
                 @ '' does not match format '' @ py_repr ''%Y-%m-%d''))
      | (Y, m, d, rest) # _ \<Rightarrow>
          if rest \<noteq> [] then Inl (ValueError (''unconverted data remains: '' @ rest))
          else py_date (py_int Y) (py_int m) (py_int d))"

subsection \<open>\<^verbatim>\<open>float(s)\<close>\<close>

text \<open>
  A Python \<^verbatim>\<open>float\<close> is an IEEE 754 binary64 value: a finite value with its sign (the
  magnitude is kept as the rational number it denotes, so that both zeros exist), an
  infinity with its sign, or a NaN.
\<close>

datatype pyfloat = Finite bool rat | Infinite bool | NaN

text \<open>Python's \<^verbatim>\<open>x > 0\<close> on a float.\<close>

fun float_gt_zero :: "pyfloat \<Rightarrow> bool" where
  "float_gt_zero (Finite neg q) = (\<not> neg \<and> 0 < q)"
| "float_gt_zero (Infinite neg) = (\<not> neg)"
| "float_gt_zero NaN = False"

text \<open>
  The conversion rounds the decimal value to the nearest binary64 value, ties to even:
  53 bits of mantissa, the exponent of the last bit no lower than \<open>-1074\<close>, and infinity
  from \<open>2 ^ 1024\<close> on.
\<close>

definition pow2 :: "int \<Rightarrow> rat" where
  "pow2 e = (if 0 \<le> e then 2 ^ nat e else 1 / 2 ^ nat (- e))"

function bit_length :: "int \<Rightarrow> nat" where
  "bit_length n = (if n \<le> 0 then 0 else Suc (bit_length (n div 2)))"
  by pat_completeness auto
termination
  by (relation "measure nat") auto

declare bit_length.simps [simp del]

definition floor_log2 :: "rat \<Rightarrow> int" where
  "floor_log2 q =
     (let (a, b) = quotient_of q;
          k = int (bit_length a) - int (bit_length b)
      in if pow2 k \<le> q then k else k - 1)"

definition round_half_even :: "rat \<Rightarrow> int" where
  "round_half_even x =
     (let f = \<lfloor>x\<rfloor>; r = x - of_int f
      in if r < 1 / 2 then f else if 1 / 2 < r then f + 1
         else if even f then f else f + 1)"

definition round_double :: "bool \<Rightarrow> rat \<Rightarrow> pyfloat" where
  "round_double neg q =
     (if q = 0 then Finite neg 0
      else let e = max (- 1074) (floor_log2 q - 52);
               v = of_int (round_half_even (q / pow2 e)) * pow2 e
           in if 2 ^ 1024 \<le> v then Infinite neg else Finite neg v)"

text \<open>
  \<^verbatim>\<open>float\<close> first makes the string ASCII: a string with a code point from 128 on has
  its whitespace from 127 on replaced by a space, and is cut after a \<^verbatim>\<open>?\<close> put for
  the first other such character.
\<close>

fun transform_decimal_and_space :: "string \<Rightarrow> string" where
  "transform_decimal_and_space [] = []"
| "transform_decimal_and_space (c # cs) =
     (if (of_char c :: nat) < 127 then c # transform_decimal_and_space cs
      else if isspace c then CHR '' '' # transform_decimal_and_space cs
      else ''?'')"

definition to_ascii :: "string \<Rightarrow> string" where
  "to_ascii s = (if list_all (\<lambda>c. (of_char c :: nat) < 128) s then s
                 else transform_decimal_and_space s)"

text \<open>
  Underscores: when the string has one, each must stand between two digits, and they
  are removed. The first argument is the previous character.
\<close>

fun strip_underscores :: "char \<Rightarrow> string \<Rightarrow> string option" where
  "strip_underscores prev [] = (if prev = CHR ''_'' then None else Some [])"
| "strip_underscores prev (c # cs) =
     (if c = CHR ''_'' then
        (if isdecimal prev then strip_underscores c cs else None)
      else if prev = CHR ''_'' \<and> \<not> isdecimal c then None
      else map_option (\<lambda>r. c # r) (strip_underscores c cs))"

definition remove_underscores :: "string \<Rightarrow> string option" where
  "remove_underscores s =
     (if CHR ''_'' \<notin> set s then Some s else strip_underscores (CHR 0x00) s)"

text \<open>The whitespace of C's \<^verbatim>\<open>isspace\<close>, stripped at both ends.\<close>

definition c_isspace :: "char \<Rightarrow> bool" where
  "c_isspace c = (c \<in> set [CHR 0x09, CHR 0x0A, CHR 0x0B, CHR 0x0C, CHR 0x0D, CHR 0x20])"

definition c_strip :: "string \<Rightarrow> string" where
  "c_strip s = rev (dropWhile c_isspace (rev (dropWhile c_isspace s)))"

text \<open>
  The number itself. An optional sign; then digits, an optional point and digits, with
  one digit at least, and an exponent when \<^verbatim>\<open>e\<close> is followed by an optional sign and
  one digit at least; or else \<^verbatim>\<open>inf\<close>, \<^verbatim>\<open>infinity\<close> or \<^verbatim>\<open>nan\<close> in any case. The result is
  the value and the text not consumed, or \<open>None\<close> when nothing converts.
\<close>

definition parse_sign :: "string \<Rightarrow> bool \<times> string" where
  "parse_sign s =
     (case s of
        [] \<Rightarrow> (False, s)
      | c # cs \<Rightarrow> if c = CHR ''-'' then (True, cs)
                  else if c = CHR ''+'' then (False, cs) else (False, s))"

definition scale10 :: "int \<Rightarrow> int \<Rightarrow> rat" where
  "scale10 m e = (if 0 \<le> e then of_int m * 10 ^ nat e else of_int m / 10 ^ nat (- e))"

definition parse_exponent :: "string \<Rightarrow> int \<times> string" where
  "parse_exponent s =
     (case s of
        [] \<Rightarrow> (0, s)
      | c # cs \<Rightarrow>
          if c = CHR ''e'' \<or> c = CHR ''E'' then
            (let (eneg, r) = parse_sign cs;
                 ds = takeWhile isdecimal r
             in if ds = [] then (0, s)
                else ((if eneg then - int_of_digits ds else int_of_digits ds),
                      dropWhile isdecimal r))
          else (0, s))"

definition strtod :: "string \<Rightarrow> (pyfloat \<times> string) option" where
  "strtod s =
     (let (neg, r0) = parse_sign s;
          ip = takeWhile isdecimal r0;
          r1 = dropWhile isdecimal r0;
          fp = (case r1 of [] \<Rightarrow> [] | c # cs \<Rightarrow> if c = CHR ''.'' then takeWhile isdecimal cs else []);
          r2 = (case r1 of [] \<Rightarrow> [] | c # cs \<Rightarrow> if c = CHR ''.'' then dropWhile isdecimal cs else r1)
      in if ip = [] \<and> fp = [] then None
         else let (e, r3) = parse_exponent r2
              in Some (round_double neg (scale10 (int_of_digits (ip @ fp)) (e - int (length fp))), r3))"

definition tolower :: "char \<Rightarrow> char" where
  "tolower c = (if (65::nat) \<le> of_char c \<and> (of_char c :: nat) \<le> 90
                then char_of (of_char c + (32::nat)) else c)"

definition parse_inf_or_nan :: "string \<Rightarrow> (pyfloat \<times> string) option" where
  "parse_inf_or_nan s =
     (let (neg, r) = parse_sign s
      in if map tolower (take 3 r) = ''inf'' then
           (if map tolower (take 5 (drop 3 r)) = ''inity'' then Some (Infinite neg, drop 8 r)
            else Some (Infinite neg, drop 3 r))
         else if map tolower (take 3 r) = ''nan'' then Some (NaN, drop 3 r)
         else None)"

definition string_to_double :: "string \<Rightarrow> (pyfloat \<times> string) option" where
  "string_to_double s = (case strtod s of Some r \<Rightarrow> Some r | None \<Rightarrow> parse_inf_or_nan s)"

text \<open>
  The conversion succeeds when the whole stripped string is consumed; every failure is
  a \<^verbatim>\<open>ValueError\<close> that shows the argument.
\<close>

definition float_error :: "string \<Rightarrow> exn" where
  "float_error s = ValueError (''could not convert string to float: '' @ py_repr s)"

definition py_float :: "string \<Rightarrow> exn + pyfloat" where
  "py_float s =
     (case remove_underscores (to_ascii s) of
        None \<Rightarrow> Inl (float_error s)
      | Some u \<Rightarrow>
          (case string_to_double (c_strip u) of
             None \<Rightarrow> Inl (float_error s)
           | Some (x, rest) \<Rightarrow> if rest = [] then Inr x else Inl (float_error s)))"

section \<open>The message parser\<close>

subsection \<open>Control flow\<close>

text \<open>A statement that may raise, followed by the rest of the block.\<close>

definition exn_bind :: "exn + 'a \<Rightarrow> ('a \<Rightarrow> exn + 'b) \<Rightarrow> exn + 'b" where
  "exn_bind m f = (case m of Inl e \<Rightarrow> Inl e | Inr v \<Rightarrow> f v)"

text \<open>
  \<^verbatim>\<open>try: body except ValueError: handler\<close>. The handler runs when the body raises a
  \<^verbatim>\<open>ValueError\<close>; what the handler raises is not caught.
\<close>

definition try_except_ValueError :: "exn + 'a \<Rightarrow> exn + 'a \<Rightarrow> exn + 'a" where
  "try_except_ValueError body handler =
     (case body of
        Inl (ValueError m) \<Rightarrow> handler
      | Inl (OtherException m) \<Rightarrow> Inl (OtherException m)
      | Inr v \<Rightarrow> Inr v)"

text \<open>
  A tuple assignment \<^verbatim>\<open>a, b, c, d = xs\<close> raises \<^verbatim>\<open>ValueError\<close> when the list has not
  exactly as many elements as there are targets.
\<close>

definition unpack_error :: "nat \<Rightarrow> nat \<Rightarrow> exn" where
  "unpack_error expected got =
     ValueError
       (if expected < got then
          ''too many values to unpack (expected '' @ decimal (int expected) @ '')''
        else ''not enough values to unpack (expected '' @ decimal (int expected)
               @ '', got '' @ decimal (int got) @ '')'')"

fun unpack4 :: "string list \<Rightarrow> exn + string \<times> string \<times> string \<times> string" where
  "unpack4 [a, b, c, d] = Inr (a, b, c, d)"
| "unpack4 xs = Inl (unpack_error 4 (length xs))"

fun unpack5 :: "string list \<Rightarrow> exn + string \<times> string \<times> string \<times> string \<times> string" where
  "unpack5 [a, b, c, d, e] = Inr (a, b, c, d, e)"
| "unpack5 xs = Inl (unpack_error 5 (length xs))"

subsection \<open>\<^verbatim>\<open>parse_expense_message\<close>\<close>

text \<open>The dictionary the parser returns, with its six keys.\<close>

record expense =
  date :: pydate
  item :: string
  price :: pyfloat
  store :: string
  category :: string
  quantity :: string

text \<open>
  Lines 41 to 65: the branch on the number of parts, which assigns the six local
  variables or raises. \<open>today\<close> is what \<^verbatim>\<open>datetime.now().date()\<close> returns during the
  call.
\<close>

definition assign_fields ::
  "pydate \<Rightarrow> string list \<Rightarrow> exn + pydate \<times> string \<times> string \<times> string \<times> string \<times> string" where
  "assign_fields today parts =
     (if length parts = 6 then
        try_except_ValueError
          (exn_bind (strptime (parts ! 0)) (\<lambda>d.
           exn_bind (unpack5 (drop 1 parts)) (\<lambda>(i, p, s, c, q).
           Inr (d, i, p, s, c, q))))
          (exn_bind (unpack5 parts) (\<lambda>(i, p, s, c, q).
           Inr (today, i, p, s, c, q)))
      else if length parts = 5 then
        try_except_ValueError
          (exn_bind (strptime (parts ! 0)) (\<lambda>d.
           exn_bind (unpack4 (drop 1 parts)) (\<lambda>(i, p, s, c).
           Inr (d, i, p, s, c, []))))
          (exn_bind (unpack5 parts) (\<lambda>(i, p, s, c, q).
           Inr (today, i, p, s, c, q)))
      else if length parts = 4 then
        exn_bind (unpack4 parts) (\<lambda>(i, p, s, c).
        Inr (today, i, p, s, c, []))
      else Inl (ValueError ''Invalid message format. Use: Item, Price, Store, Category''))"

text \<open>Line 38: the message split on commas, each part stripped.\<close>

definition message_parts :: "string \<Rightarrow> string list" where
  "message_parts message = map str_strip (str_split CHR '','' message)"

text \<open>The whole function: lines 38 to 74. The price is converted when the result is built.\<close>

definition parse_expense_message :: "pydate \<Rightarrow> string \<Rightarrow> exn + expense" where
  "parse_expense_message today message =
     exn_bind (assign_fields today (message_parts message)) (\<lambda>(d, i, p, s, c, q).
     exn_bind (py_float p) (\<lambda>x.
     Inr \<lparr>date = d, item = i, price = x, store = s, category = c, quantity = q\<rparr>))"

section \<open>The message handler\<close>

text \<open>
  \<^verbatim>\<open>handle_expense\<close> parses the text of the message, calls \<^verbatim>\<open>notion.pages.create\<close> with
  the properties of the new page and replies to the sender. The call to the database is
  the one effect outside the process: \<open>create\<close> says what the call does for a given
  page, \<open>None\<close> when it returns and \<open>Some e\<close> when it raises \<open>e\<close>. The outcome of the
  handler lists the calls made to the database, the reply sent and what was logged.
  Sending the reply is taken to return normally.
\<close>

record page =
  Date :: string
  Item :: string
  Price :: pyfloat
  Store :: string
  Category :: string
  Quantity :: string

definition page_properties :: "expense \<Rightarrow> page" where
  "page_properties e =
     \<lparr>Date = isoformat (date e), Item = item e, Price = price e, Store = store e,
      Category = category e, Quantity = quantity e\<rparr>"

datatype reply =
    Expense_added expense
  | Format_error string
  | Unexpected_error string

record outcome =
  created :: "page list"
  replied :: reply
  logged :: "string list"

text \<open>The two \<^verbatim>\<open>except\<close> clauses of lines 157 to 165, for an exception raised after \<open>calls\<close>.\<close>

fun except_clauses :: "page list \<Rightarrow> exn \<Rightarrow> outcome" where
  "except_clauses calls (ValueError m) =
     \<lparr>created = calls, replied = Format_error m, logged = []\<rparr>"
| "except_clauses calls (OtherException m) =
     \<lparr>created = calls, replied = Unexpected_error m,
      logged = [''An error occurred: '' @ m]\<rparr>"

definition handle_expense :: "pydate \<Rightarrow> (page \<Rightarrow> exn option) \<Rightarrow> string \<Rightarrow> outcome" where
  "handle_expense today create text =
     (case parse_expense_message today text of
        Inl e \<Rightarrow> except_clauses [] e
      | Inr expense \<Rightarrow>
          (case create (page_properties expense) of
             Some e \<Rightarrow> except_clauses [page_properties expense] e
           | None \<Rightarrow>
               \<lparr>created = [page_properties expense], replied = Expense_added expense,
                logged = []\<rparr>))"

section \<open>Whitespace around the segments of a message\<close>

text \<open>
  A message is its segments joined by commas. \<open>pad ls segs rs\<close> puts the text \<open>ls ! k\<close>
  before the segment \<open>segs ! k\<close> and the text \<open>rs ! k\<close> after it.
\<close>

definition pad :: "string list \<Rightarrow> string list \<Rightarrow> string list \<Rightarrow> string list" where
  "pad ls segs rs = map (\<lambda>(l, s, r). l @ s @ r) (zip ls (zip segs rs))"

definition all_space :: "string \<Rightarrow> bool" where
  "all_space s = list_all isspace s"

definition no_comma :: "string \<Rightarrow> bool" where
  "no_comma s = (CHR '','' \<notin> set s)"

section \<open>Properties of the library operations\<close>

subsection \<open>Splitting and joining\<close>

lemma str_split_not_Nil: "str_split sep s \<noteq> []"
  by (induction s) (auto split: list.splits)

lemma str_split_no_sep: "sep \<notin> set s \<Longrightarrow> str_split sep s = [s]"
  by (induction s) auto

lemma str_split_append_sep:
  "sep \<notin> set s \<Longrightarrow> str_split sep (s @ sep # t) = s # str_split sep t"
  by (induction s) auto

lemma str_split_join:
  "segs \<noteq> [] \<Longrightarrow> \<forall>s \<in> set segs. sep \<notin> set s \<Longrightarrow>
   str_split sep (str_join sep segs) = segs"
proof (induction sep segs rule: str_join.induct)
  case (1 sep)
  then show ?case by simp
next
  case (2 sep s)
  then show ?case by (simp add: str_split_no_sep)
next
  case (3 sep s t ts)
  then show ?case by (simp add: str_split_append_sep)
qed

subsection \<open>Stripping\<close>

lemma dropWhile_all: "\<forall>c \<in> set l. P c \<Longrightarrow> dropWhile P (l @ s) = dropWhile P s"
  by (induction l) auto

lemma str_strip_left:
  assumes "\<forall>c \<in> set l. isspace c"
  shows "str_strip (l @ s) = str_strip s"
  using assms by (simp add: str_strip_def dropWhile_all)

lemma str_strip_right:
  assumes "\<forall>c \<in> set r. isspace c"
  shows "str_strip (s @ r) = str_strip s"
proof (cases "\<forall>c \<in> set s. isspace c")
  case True
  with assms have "dropWhile isspace (s @ r) = []" "dropWhile isspace s = []"
    by auto
  then show ?thesis by (simp only: str_strip_def)
next
  case False
  then have "dropWhile isspace (s @ r) = dropWhile isspace s @ r"
    by (auto simp: dropWhile_append1)
  moreover from assms have "\<forall>c \<in> set (rev r). isspace c" by simp
  ultimately show ?thesis
    by (simp add: str_strip_def dropWhile_all del: set_rev)
qed

lemma str_strip_pad:
  "\<forall>c \<in> set l. isspace c \<Longrightarrow> \<forall>c \<in> set r. isspace c \<Longrightarrow>
   str_strip (l @ s @ r) = str_strip s"
  by (simp add: str_strip_left str_strip_right)

lemma comma_not_space: "\<not> isspace CHR '',''"
  by (simp add: isspace_def)

subsection \<open>Every library failure is a \<^verbatim>\<open>ValueError\<close>\<close>

lemma py_float_error: "py_float s = Inl e \<Longrightarrow> e = float_error s"
  by (auto simp: py_float_def split: option.splits prod.splits if_splits)

lemma py_date_error: "py_date y m d = Inl e \<Longrightarrow> is_ValueError e"
  by (auto simp: py_date_def split: if_splits)

lemma strptime_error: "strptime s = Inl e \<Longrightarrow> is_ValueError e"
  by (auto simp: strptime_def split: list.splits prod.splits if_splits dest: py_date_error)

lemma is_ValueError_unpack_error: "is_ValueError (unpack_error n k)"
  by (simp add: unpack_error_def)

subsection \<open>Tuple assignment\<close>

lemma unpack4_4: "length xs = 4 \<Longrightarrow> unpack4 xs = Inr (xs ! 0, xs ! 1, xs ! 2, xs ! 3)"
  by (auto simp: eval_nat_numeral length_Suc_conv)

lemma unpack5_5:
  "length xs = 5 \<Longrightarrow> unpack5 xs = Inr (xs ! 0, xs ! 1, xs ! 2, xs ! 3, xs ! 4)"
  by (auto simp: eval_nat_numeral length_Suc_conv)

lemma unpack5_6: "length xs = 6 \<Longrightarrow> unpack5 xs = Inl (unpack_error 5 6)"
  by (auto simp: eval_nat_numeral length_Suc_conv)

lemma unpack4_drop:
  "length xs = 5 \<Longrightarrow> unpack4 (drop 1 xs) = Inr (xs ! 1, xs ! 2, xs ! 3, xs ! 4)"
  by (auto simp: eval_nat_numeral length_Suc_conv)

lemma unpack5_drop:
  "length xs = 6 \<Longrightarrow> unpack5 (drop 1 xs) = Inr (xs ! 1, xs ! 2, xs ! 3, xs ! 4, xs ! 5)"
  by (auto simp: eval_nat_numeral length_Suc_conv)

section \<open>Properties of the parser\<close>

subsection \<open>The branches of \<^verbatim>\<open>parse_expense_message\<close>\<close>

lemma assign_fields_4:
  "length parts = 4 \<Longrightarrow>
   assign_fields today parts = Inr (today, parts ! 0, parts ! 1, parts ! 2, parts ! 3, [])"
  by (simp add: assign_fields_def exn_bind_def unpack4_4)

lemma assign_fields_5_date:
  "length parts = 5 \<Longrightarrow> strptime (parts ! 0) = Inr d \<Longrightarrow>
   assign_fields today parts = Inr (d, parts ! 1, parts ! 2, parts ! 3, parts ! 4, [])"
  by (simp add: assign_fields_def exn_bind_def try_except_ValueError_def
        unpack4_drop [unfolded One_nat_def])

lemma assign_fields_5_no_date:
  "length parts = 5 \<Longrightarrow> strptime (parts ! 0) = Inl e \<Longrightarrow>
   assign_fields today parts =
     Inr (today, parts ! 0, parts ! 1, parts ! 2, parts ! 3, parts ! 4)"
  by (frule strptime_error, cases e)
     (simp_all add: assign_fields_def exn_bind_def try_except_ValueError_def unpack5_5)

lemma assign_fields_6_date:
  "length parts = 6 \<Longrightarrow> strptime (parts ! 0) = Inr d \<Longrightarrow>
   assign_fields today parts =
     Inr (d, parts ! 1, parts ! 2, parts ! 3, parts ! 4, parts ! 5)"
  by (simp add: assign_fields_def exn_bind_def try_except_ValueError_def
        unpack5_drop [unfolded One_nat_def])

lemma assign_fields_6_no_date:
  "length parts = 6 \<Longrightarrow> strptime (parts ! 0) = Inl e \<Longrightarrow>
   assign_fields today parts = Inl (unpack_error 5 6)"
  by (frule strptime_error, cases e)
     (simp_all add: assign_fields_def exn_bind_def try_except_ValueError_def unpack5_6)

lemma assign_fields_other:
  "length parts \<noteq> 4 \<Longrightarrow> length parts \<noteq> 5 \<Longrightarrow> length parts \<noteq> 6 \<Longrightarrow>
   assign_fields today parts =
     Inl (ValueError ''Invalid message format. Use: Item, Price, Store, Category'')"
  by (simp add: assign_fields_def)

lemma assign_fields_error: "assign_fields today parts = Inl e \<Longrightarrow> is_ValueError e"
proof -
  assume a: "assign_fields today parts = Inl e"
  consider "length parts = 4" | "length parts = 5" | "length parts = 6"
    | "length parts \<noteq> 4" "length parts \<noteq> 5" "length parts \<noteq> 6"
    by blast
  then show ?thesis
  proof cases
    case 1
    with a show ?thesis by (simp add: assign_fields_4)
  next
    case 2
    with a show ?thesis
      by (cases "strptime (parts ! 0)")
         (simp_all add: assign_fields_5_date assign_fields_5_no_date)
  next
    case 3
    with a show ?thesis
      by (cases "strptime (parts ! 0)")
         (auto simp: assign_fields_6_date assign_fields_6_no_date is_ValueError_unpack_error)
  next
    case 4
    with a show ?thesis by (auto simp: assign_fields_other)
  qed
qed

lemma parse_error: "parse_expense_message today m = Inl e \<Longrightarrow> is_ValueError e"
  by (auto simp: parse_expense_message_def exn_bind_def float_error_def
           split: sum.splits prod.splits dest: assign_fields_error py_float_error)

lemma parse_six_segments_date:
  assumes "length (message_parts m) = 6" and "strptime (message_parts m ! 0) = Inr d"
  shows "parse_expense_message today m =
           exn_bind (py_float (message_parts m ! 2)) (\<lambda>x.
             Inr \<lparr>date = d, item = message_parts m ! 1, price = x,
                  store = message_parts m ! 3, category = message_parts m ! 4,
                  quantity = message_parts m ! 5\<rparr>)"
  using assms by (simp add: parse_expense_message_def exn_bind_def assign_fields_6_date)

subsection \<open>Padded messages\<close>

lemma map_strip_pad:
  "length ls = length segs \<Longrightarrow> length rs = length segs \<Longrightarrow>
   list_all all_space ls \<Longrightarrow> list_all all_space rs \<Longrightarrow>
   map str_strip (pad ls segs rs) = map str_strip segs"
proof (induction segs arbitrary: ls rs)
  case Nil
  then show ?case by (simp add: pad_def)
next
  case (Cons s segs)
  from Cons.prems obtain l ls' r rs' where ls: "ls = l # ls'" and rs: "rs = r # rs'"
    by (cases ls; cases rs) auto
  with Cons.prems have "str_strip (l @ s @ r) = str_strip s"
    by (intro str_strip_pad) (auto simp: all_space_def list_all_iff)
  moreover from Cons.prems ls rs
  have "map str_strip (pad ls' segs rs') = map str_strip segs"
    by (intro Cons.IH) auto
  ultimately show ?case by (simp add: ls rs pad_def)
qed

lemma no_comma_pad:
  "length ls = length segs \<Longrightarrow> length rs = length segs \<Longrightarrow>
   list_all all_space ls \<Longrightarrow> list_all all_space rs \<Longrightarrow> list_all no_comma segs \<Longrightarrow>
   list_all no_comma (pad ls segs rs)"
proof (induction segs arbitrary: ls rs)
  case Nil
  then show ?case by (simp add: pad_def)
next
  case (Cons s segs)
  from Cons.prems obtain l ls' r rs' where ls: "ls = l # ls'" and rs: "rs = r # rs'"
    by (cases ls; cases rs) auto
  with Cons.prems have "no_comma (l @ s @ r)"
    using comma_not_space by (auto simp: no_comma_def all_space_def list_all_iff)
  moreover from Cons.prems ls rs have "list_all no_comma (pad ls' segs rs')"
    by (intro Cons.IH) auto
  ultimately show ?case by (simp add: ls rs pad_def)
qed

lemma message_parts_join:
  "segs \<noteq> [] \<Longrightarrow> list_all no_comma segs \<Longrightarrow>
   message_parts (str_join CHR '','' segs) = map str_strip segs"
  by (simp add: message_parts_def str_split_join no_comma_def list_all_iff)

lemma pad_not_Nil:
  "segs \<noteq> [] \<Longrightarrow> length ls = length segs \<Longrightarrow> length rs = length segs \<Longrightarrow>
   pad ls segs rs \<noteq> []"
  by (cases segs; cases ls; cases rs) (auto simp: pad_def)

lemma message_parts_pad:
  assumes "segs \<noteq> []" "length ls = length segs" "length rs = length segs"
    and "list_all all_space ls" "list_all all_space rs" "list_all no_comma segs"
  shows "message_parts (str_join CHR '','' (pad ls segs rs))
           = message_parts (str_join CHR '','' segs)"
proof -
  have "message_parts (str_join CHR '','' (pad ls segs rs)) = map str_strip (pad ls segs rs)"
    using assms by (intro message_parts_join pad_not_Nil no_comma_pad)
  also have "\<dots> = map str_strip segs"
    using assms by (intro map_strip_pad)
  also have "\<dots> = message_parts (str_join CHR '','' segs)"
    using assms by (simp add: message_parts_join)
  finally show ?thesis .
qed

subsection \<open>What a successful parse returns\<close>

lemma parse_success_fields:
  assumes "parse_expense_message today m = Inr r"
  shows "\<exists>k. k = (if length (message_parts m) = 4 \<or> isl (strptime (message_parts m ! 0))
                    then 0 else 1)
           \<and> item r = message_parts m ! k
           \<and> py_float (message_parts m ! Suc k) = Inr (price r)"
proof -
  let ?ps = "message_parts m"
  from assms obtain d i p s c q x where
    a: "assign_fields today ?ps = Inr (d, i, p, s, c, q)" and
    f: "py_float p = Inr x" and
    r: "r = \<lparr>date = d, item = i, price = x, store = s, category = c, quantity = q\<rparr>"
    by (auto simp: parse_expense_message_def exn_bind_def split: sum.splits prod.splits)
  consider "length ?ps = 4" | "length ?ps = 5" | "length ?ps = 6"
    | "length ?ps \<noteq> 4" "length ?ps \<noteq> 5" "length ?ps \<noteq> 6"
    by blast
  then show ?thesis
  proof cases
    case 1
    with a f r show ?thesis by (simp add: assign_fields_4)
  next
    case 2
    with a f r show ?thesis
      by (cases "strptime (?ps ! 0)")
         (auto simp: assign_fields_5_date assign_fields_5_no_date numeral_2_eq_2)
  next
    case 3
    with a f r show ?thesis
      by (cases "strptime (?ps ! 0)")
         (auto simp: assign_fields_6_date assign_fields_6_no_date numeral_2_eq_2)
  next
    case 4
    with a show ?thesis by (simp add: assign_fields_other)
  qed
qed

subsection \<open>The handler on a parse failure\<close>

lemma handle_expense_parse_error:
  assumes "parse_expense_message today m = Inl e"
  shows "handle_expense today create m =
           \<lparr>created = [], replied = Format_error (exn_str e), logged = []\<rparr>"
proof -
  from assms have "is_ValueError e" by (rule parse_error)
  then obtain msg where "e = ValueError msg" by (cases e) auto
  with assms show ?thesis by (simp add: handle_expense_def)
qed

subsection \<open>Example messages\<close>

lemma parts_eggs:
  "message_parts ''Eggs, 3.50, Walmart, Groceries'' = [''Eggs'', ''3.50'', ''Walmart'', ''Groceries'']"
  by code_simp

lemma parts_milk:
  "message_parts ''Milk, 2.25, Costco, Groceries, 2 gallons''
     = [''Milk'', ''2.25'', ''Costco'', ''Groceries'', ''2 gallons'']"
  by code_simp

lemma parts_bread:
  "message_parts ''2024-01-15, Bread, 2.25, Kroger, Groceries''
     = [''2024-01-15'', ''Bread'', ''2.25'', ''Kroger'', ''Groceries'']"
  by code_simp

lemma parts_six:
  "message_parts ''Milk, 2.25, Costco, Groceries, 2 gallons, extra''
     = [''Milk'', ''2.25'', ''Costco'', ''Groceries'', ''2 gallons'', ''extra'']"
  by code_simp

lemma parts_notanumber:
  "message_parts ''Eggs, notanumber, Walmart, Groceries''
     = [''Eggs'', ''notanumber'', ''Walmart'', ''Groceries'']"
  by code_simp

lemma parts_abc: "message_parts ''A, B, C'' = [''A'', ''B'', ''C'']"
  by code_simp

lemma float_350: "py_float ''3.50'' = Inr (Finite False (7 / 2))"
  by code_simp

lemma float_225: "py_float ''2.25'' = Inr (Finite False (9 / 4))"
  by code_simp

lemma float_notanumber: "py_float ''notanumber'' = Inl (float_error ''notanumber'')"
  by code_simp

lemma repr_notanumber: "py_repr ''notanumber'' = CHR 0x27 # ''notanumber'' @ [CHR 0x27]"
  by code_simp

lemma strptime_2024_01_15: "strptime ''2024-01-15'' = Inr \<lparr>year = 2024, month = 1, day = 15\<rparr>"
  by code_simp

lemma strptime_Milk: "isl (strptime ''Milk'')"
  by code_simp

lemma unpack_error_5_6: "unpack_error 5 6 = ValueError ''too many values to unpack (expected 5)''"
  by code_simp

section \<open>The claims\<close>

text \<open>
  C1, as amended. A message of exactly five stripped segments: when segment 0 converts
  with \<^verbatim>\<open>strptime(..., '%Y-%m-%d')\<close>, the date is that date, item, price, store and
  category come from segments 1 to 4 and the quantity is empty; when it does not, the
  five segments are item, price, store, category and quantity, and the date is the
  processing date. In both cases the record is returned when the price segment converts
  with \<^verbatim>\<open>float\<close>, and the \<^verbatim>\<open>ValueError\<close> of \<^verbatim>\<open>float\<close> is raised when it does not.
\<close>

theorem parse_five_segments:
  assumes "length (message_parts m) = 5"
  shows "parse_expense_message today m =
           (case strptime (message_parts m ! 0) of
              Inr d \<Rightarrow>
                (case py_float (message_parts m ! 2) of
                   Inr x \<Rightarrow>
                     Inr \<lparr>date = d, item = message_parts m ! 1, price = x,
                          store = message_parts m ! 3, category = message_parts m ! 4,
                          quantity = []\<rparr>
                 | Inl e \<Rightarrow> Inl (float_error (message_parts m ! 2)))
            | Inl e' \<Rightarrow>
                (case py_float (message_parts m ! 1) of
                   Inr x \<Rightarrow>
                     Inr \<lparr>date = today, item = message_parts m ! 0, price = x,
                          store = message_parts m ! 2, category = message_parts m ! 3,
                          quantity = message_parts m ! 4\<rparr>
                 | Inl e \<Rightarrow> Inl (float_error (message_parts m ! 1))))"
proof (cases "strptime (message_parts m ! 0)")
  case (Inl e')
  with assms show ?thesis
    by (auto simp: parse_expense_message_def exn_bind_def assign_fields_5_no_date
             split: sum.splits dest: py_float_error)
next
  case (Inr d)
  with assms show ?thesis
    by (auto simp: parse_expense_message_def exn_bind_def assign_fields_5_date
             split: sum.splits dest: py_float_error)
qed

theorem parse_five_segments_witness:
  "parse_expense_message \<lparr>year = 2026, month = 11, day = 4\<rparr> ''2024-01-15, Bread, 2.25, Kroger, Groceries''
     = Inr \<lparr>date = \<lparr>year = 2024, month = 1, day = 15\<rparr>, item = ''Bread'',
            price = Finite False (9 / 4), store = ''Kroger'', category = ''Groceries'',
            quantity = []\<rparr>
   \<and> parse_expense_message \<lparr>year = 2026, month = 11, day = 4\<rparr> ''Milk, 2.25, Costco, Groceries, 2 gallons''
     = Inr \<lparr>date = \<lparr>year = 2026, month = 11, day = 4\<rparr>, item = ''Milk'',
            price = Finite False (9 / 4), store = ''Costco'', category = ''Groceries'',
            quantity = ''2 gallons''\<rparr>"
proof -
  have b: "length (message_parts ''2024-01-15, Bread, 2.25, Kroger, Groceries'') = 5"
    by (simp add: parts_bread)
  have m: "length (message_parts ''Milk, 2.25, Costco, Groceries, 2 gallons'') = 5"
    by (simp add: parts_milk)
  from strptime_Milk obtain e where e: "strptime ''Milk'' = Inl e"
    by (cases "strptime ''Milk''") auto
  show ?thesis
    using parse_five_segments [OF b, where today = "\<lparr>year = 2026, month = 11, day = 4\<rparr>"]
      parse_five_segments [OF m, where today = "\<lparr>year = 2026, month = 11, day = 4\<rparr>"]
    by (simp add: parts_bread parts_milk strptime_2024_01_15 float_225 e)
qed

theorem parse_five_segments_counterexample:
  "length (message_parts ''Milk, abc, Costco, Groceries, 2 gallons'') = 5
   \<and> parse_expense_message \<lparr>year = 2026, month = 11, day = 4\<rparr> ''Milk, abc, Costco, Groceries, 2 gallons''
       = Inl (float_error ''abc'')"
  by code_simp

text \<open>
  C2. A message of exactly six stripped segments whose segment 0 does not convert with
  \<^verbatim>\<open>strptime\<close>: the handler of line 46 assigns five targets from six parts, so the
  parser raises \<^verbatim>\<open>ValueError\<close> and returns no record.
\<close>

theorem parse_six_segments_without_date_raises:
  assumes "length (message_parts m) = 6" and "strptime (message_parts m ! 0) = Inl e"
  shows "parse_expense_message today m
           = Inl (ValueError ''too many values to unpack (expected 5)'')"
  using assms
  by (simp add: parse_expense_message_def exn_bind_def assign_fields_6_no_date
        unpack_error_5_6)

theorem parse_six_segments_without_date_raises_witness:
  "length (message_parts ''Milk, 2.25, Costco, Groceries, 2 gallons, extra'') = 6
   \<and> isl (strptime (message_parts ''Milk, 2.25, Costco, Groceries, 2 gallons, extra'' ! 0))
   \<and> parse_expense_message \<lparr>year = 2026, month = 11, day = 4\<rparr> ''Milk, 2.25, Costco, Groceries, 2 gallons, extra''
       = Inl (ValueError ''too many values to unpack (expected 5)'')"
proof -
  let ?m = "''Milk, 2.25, Costco, Groceries, 2 gallons, extra''"
  have l: "length (message_parts ?m) = 6"
    by (simp add: parts_six)
  from strptime_Milk obtain e where e: "strptime (message_parts ?m ! 0) = Inl e"
    by (cases "strptime ''Milk''") (auto simp: parts_six)
  from parse_six_segments_without_date_raises [OF l e, where today = "\<lparr>year = 2026, month = 11, day = 4\<rparr>"] l e
  show ?thesis by simp
qed

text \<open>
  C3. A message of exactly four stripped segments whose price segment converts with
  \<^verbatim>\<open>float\<close>: the parser returns item, price, store and category from the four segments
  in order, an empty quantity and the processing date.
\<close>

theorem parse_four_segments:
  assumes "length (message_parts m) = 4" and "py_float (message_parts m ! 1) = Inr x"
  shows "parse_expense_message today m
           = Inr \<lparr>date = today, item = message_parts m ! 0, price = x,
                  store = message_parts m ! 2, category = message_parts m ! 3,
                  quantity = []\<rparr>"
  using assms by (simp add: parse_expense_message_def exn_bind_def assign_fields_4)

theorem parse_four_segments_witness:
  "length (message_parts ''Eggs, 3.50, Walmart, Groceries'') = 4
   \<and> py_float (message_parts ''Eggs, 3.50, Walmart, Groceries'' ! 1) = Inr (Finite False (7 / 2))
   \<and> parse_expense_message \<lparr>year = 2026, month = 11, day = 4\<rparr> ''Eggs, 3.50, Walmart, Groceries''
       = Inr \<lparr>date = \<lparr>year = 2026, month = 11, day = 4\<rparr>, item = ''Eggs'', price = Finite False (7 / 2),
              store = ''Walmart'', category = ''Groceries'', quantity = []\<rparr>"
proof -
  let ?m = "''Eggs, 3.50, Walmart, Groceries''"
  have l: "length (message_parts ?m) = 4"
    by (simp add: parts_eggs)
  have f: "py_float (message_parts ?m ! 1) = Inr (Finite False (7 / 2))"
    by (simp add: parts_eggs float_350)
  from parse_four_segments [OF l f, where today = "\<lparr>year = 2026, month = 11, day = 4\<rparr>"] l f
  show ?thesis by (simp add: parts_eggs)
qed

text \<open>
  C4. When the branch on the number of parts has assigned a price segment and
  \<^verbatim>\<open>float\<close> does not convert it, the parser raises the \<^verbatim>\<open>ValueError\<close> of \<^verbatim>\<open>float\<close>, and
  \<^verbatim>\<open>handle_expense\<close> answers with the format-error reply that carries its text: the
  clause \<^verbatim>\<open>except ValueError\<close> handles it, not the clause for unexpected errors, and
  no page is created.
\<close>

theorem non_numeric_price_is_format_error:
  assumes "assign_fields today (message_parts m) = Inr (d, i, p, s, c, q)"
    and "py_float p = Inl e"
  shows "parse_expense_message today m
           = Inl (ValueError (''could not convert string to float: '' @ py_repr p))
         \<and> handle_expense today create m
           = \<lparr>created = [],
              replied = Format_error (''could not convert string to float: '' @ py_repr p),
              logged = []\<rparr>"
proof -
  from assms(2) have "e = float_error p" by (rule py_float_error)
  with assms have
    "parse_expense_message today m
       = Inl (ValueError (''could not convert string to float: '' @ py_repr p))"
    by (simp add: parse_expense_message_def exn_bind_def float_error_def)
  then show ?thesis by (simp add: handle_expense_def)
qed

theorem non_numeric_price_is_format_error_witness:
  "parse_expense_message \<lparr>year = 2026, month = 11, day = 4\<rparr> ''Eggs, notanumber, Walmart, Groceries''
     = Inl (ValueError (''could not convert string to float: ''
                         @ CHR 0x27 # ''notanumber'' @ [CHR 0x27]))
   \<and> handle_expense \<lparr>year = 2026, month = 11, day = 4\<rparr> (\<lambda>pg. None) ''Eggs, notanumber, Walmart, Groceries''
     = \<lparr>created = [],
        replied = Format_error (''could not convert string to float: ''
                                 @ CHR 0x27 # ''notanumber'' @ [CHR 0x27]),
        logged = []\<rparr>"
proof -
  let ?m = "''Eggs, notanumber, Walmart, Groceries''"
  have a: "assign_fields \<lparr>year = 2026, month = 11, day = 4\<rparr> (message_parts ?m)
             = Inr (\<lparr>year = 2026, month = 11, day = 4\<rparr>, ''Eggs'', ''notanumber'', ''Walmart'', ''Groceries'', [])"
    by (simp add: parts_notanumber assign_fields_4)
  from non_numeric_price_is_format_error [OF a float_notanumber, where create = "\<lambda>pg. None"]
  show ?thesis by (simp add: repr_notanumber)
qed

text \<open>
  C5. A message whose number of comma-separated segments is not 4, 5 or 6: the parser
  raises the \<^verbatim>\<open>ValueError\<close> of line 65, whose text starts with
  \<^verbatim>\<open>Invalid message format\<close>, and returns no record.
\<close>

theorem wrong_segment_count_is_format_error:
  assumes "length (message_parts m) \<notin> {4, 5, 6}"
  shows "parse_expense_message today m
           = Inl (ValueError (''Invalid message format''
                               @ ''. Use: Item, Price, Store, Category''))"
  using assms by (simp add: parse_expense_message_def exn_bind_def assign_fields_other)

theorem wrong_segment_count_is_format_error_witness:
  "length (message_parts ''A, B, C'') = 3
   \<and> parse_expense_message \<lparr>year = 2026, month = 11, day = 4\<rparr> ''A, B, C''
       = Inl (ValueError ''Invalid message format. Use: Item, Price, Store, Category'')"
proof -
  have l: "length (message_parts ''A, B, C'') \<notin> {4, 5, 6}"
    by (simp add: parts_abc)
  from wrong_segment_count_is_format_error [OF l, where today = "\<lparr>year = 2026, month = 11, day = 4\<rparr>"]
  show ?thesis by (simp add: parts_abc)
qed

text \<open>
  C6. When the parser fails on the text of a message, \<^verbatim>\<open>handle_expense\<close> makes no call
  to \<^verbatim>\<open>notion.pages.create\<close>: the list of calls is empty, whatever the database would
  have answered.
\<close>

theorem no_create_call_when_parse_fails:
  assumes "parse_expense_message today m = Inl e"
  shows "created (handle_expense today create m) = []"
  using handle_expense_parse_error [OF assms] by simp

theorem no_create_call_when_parse_fails_witness:
  "isl (parse_expense_message \<lparr>year = 2026, month = 11, day = 4\<rparr> ''A, B, C'')
   \<and> created (handle_expense \<lparr>year = 2026, month = 11, day = 4\<rparr> (\<lambda>pg. Some (OtherException ''unreachable'')) ''A, B, C'') = []"
proof -
  have l: "length (message_parts ''A, B, C'') \<notin> {4, 5, 6}"
    by (simp add: parts_abc)
  then have p: "parse_expense_message \<lparr>year = 2026, month = 11, day = 4\<rparr> ''A, B, C''
      = Inl (ValueError ''Invalid message format. Use: Item, Price, Store, Category'')"
    by (simp add: parse_expense_message_def exn_bind_def assign_fields_other)
  from no_create_call_when_parse_fails [OF p] p show ?thesis by simp
qed

text \<open>
  C7, as amended. The price of every record the parser returns is the result of
  \<^verbatim>\<open>float\<close> on the price segment: segment 1, or segment 2 when a message of five or six
  segments starts with a date. The parser does not check its sign, so the price may be
  negative or zero.
\<close>

theorem price_is_float_of_price_segment:
  assumes "parse_expense_message today m = Inr r"
  shows "py_float (message_parts m !
           (if length (message_parts m) = 4 \<or> isl (strptime (message_parts m ! 0))
            then 1 else 2)) = Inr (price r)"
  using parse_success_fields [OF assms] by (auto simp: numeral_2_eq_2)

theorem price_is_float_of_price_segment_witness:
  "parse_expense_message \<lparr>year = 2026, month = 11, day = 4\<rparr> ''Eggs, 0, Walmart, Groceries''
     = Inr \<lparr>date = \<lparr>year = 2026, month = 11, day = 4\<rparr>, item = ''Eggs'', price = Finite False 0, store = ''Walmart'',
            category = ''Groceries'', quantity = []\<rparr>
   \<and> py_float ''0'' = Inr (Finite False 0)"
proof -
  let ?m = "''Eggs, 0, Walmart, Groceries''"
  have p: "parse_expense_message \<lparr>year = 2026, month = 11, day = 4\<rparr> ?m
     = Inr \<lparr>date = \<lparr>year = 2026, month = 11, day = 4\<rparr>, item = ''Eggs'', price = Finite False 0, store = ''Walmart'',
            category = ''Groceries'', quantity = []\<rparr>"
    by code_simp
  have s: "message_parts ?m = [''Eggs'', ''0'', ''Walmart'', ''Groceries'']"
    by code_simp
  from price_is_float_of_price_segment [OF p] p show ?thesis by (simp add: s)
qed

theorem positive_price_counterexample:
  "parse_expense_message \<lparr>year = 2026, month = 11, day = 4\<rparr> ''Eggs, -3.50, Walmart, Groceries''
     = Inr \<lparr>date = \<lparr>year = 2026, month = 11, day = 4\<rparr>, item = ''Eggs'', price = Finite True (7 / 2), store = ''Walmart'',
            category = ''Groceries'', quantity = []\<rparr>
   \<and> \<not> float_gt_zero (Finite True (7 / 2))"
  by code_simp

text \<open>
  C8, as amended. The item of every record the parser returns is the stripped segment
  at the item position: segment 0, or segment 1 when a message of five or six segments
  starts with a date. The parser does not check that it has a character, so the item
  may be empty.
\<close>

theorem item_is_item_segment:
  assumes "parse_expense_message today m = Inr r"
  shows "item r = message_parts m !
           (if length (message_parts m) = 4 \<or> isl (strptime (message_parts m ! 0))
            then 0 else 1)"
  using parse_success_fields [OF assms] by auto

theorem item_is_item_segment_witness:
  "parse_expense_message \<lparr>year = 2026, month = 11, day = 4\<rparr> ''2024-01-15, Bread, 2.25, Kroger, Groceries, 2''
     = Inr \<lparr>date = \<lparr>year = 2024, month = 1, day = 15\<rparr>, item = ''Bread'',
            price = Finite False (9 / 4), store = ''Kroger'', category = ''Groceries'',
            quantity = ''2''\<rparr>
   \<and> message_parts ''2024-01-15, Bread, 2.25, Kroger, Groceries, 2'' ! 1 = ''Bread''"
proof -
  let ?m = "''2024-01-15, Bread, 2.25, Kroger, Groceries, 2''"
  have p: "parse_expense_message \<lparr>year = 2026, month = 11, day = 4\<rparr> ?m
     = Inr \<lparr>date = \<lparr>year = 2024, month = 1, day = 15\<rparr>, item = ''Bread'',
            price = Finite False (9 / 4), store = ''Kroger'', category = ''Groceries'',
            quantity = ''2''\<rparr>"
    by code_simp
  have s: "message_parts ?m
             = [''2024-01-15'', ''Bread'', ''2.25'', ''Kroger'', ''Groceries'', ''2'']"
    by code_simp
  from item_is_item_segment [OF p] p show ?thesis
    by (simp add: s strptime_2024_01_15)
qed

theorem nonempty_item_counterexample:
  "parse_expense_message \<lparr>year = 2026, month = 11, day = 4\<rparr> '', 3.50, Walmart, Groceries''
     = Inr \<lparr>date = \<lparr>year = 2026, month = 11, day = 4\<rparr>, item = [], price = Finite False (7 / 2), store = ''Walmart'',
            category = ''Groceries'', quantity = []\<rparr>"
  by code_simp

text \<open>
  C9. Whitespace before and after the segments of a message does not change what the
  parser returns or raises: for segments without a comma, the message with whitespace
  \<open>ls ! k\<close> put before segment \<open>k\<close> and whitespace \<open>rs ! k\<close> put after it parses as the
  message without them. Read from right to left, the same equation removes the
  whitespace.
\<close>

theorem parse_ignores_padding:
  assumes "segs \<noteq> []" and "length ls = length segs" and "length rs = length segs"
    and "list_all all_space ls" and "list_all all_space rs" and "list_all no_comma segs"
  shows "parse_expense_message today (str_join CHR '','' (pad ls segs rs))
           = parse_expense_message today (str_join CHR '','' segs)"
  using message_parts_pad [OF assms] by (simp add: parse_expense_message_def)

theorem parse_ignores_padding_witness:
  "parse_expense_message \<lparr>year = 2026, month = 11, day = 4\<rparr> ''Eggs , 3.50 , Walmart , Groceries''
     = parse_expense_message \<lparr>year = 2026, month = 11, day = 4\<rparr> ''Eggs, 3.50, Walmart, Groceries''"
  using parse_ignores_padding
    [of "[''Eggs'', '' 3.50'', '' Walmart'', '' Groceries'']"
        "['''', '''', '''', '''']" "['' '', '' '', '' '', '''']" "\<lparr>year = 2026, month = 11, day = 4\<rparr>"]
  by (simp add: pad_def all_space_def no_comma_def isspace_def)

text \<open>
  C10. Every exception the parser raises is a \<^verbatim>\<open>ValueError\<close>: the rejection of the
  number of segments, the failed tuple assignment after a failed date and the failed
  conversion of the price. \<^verbatim>\<open>handle_expense\<close> therefore answers every parse failure with
  the format-error reply, logs nothing and never sends the reply for unexpected errors.
\<close>

theorem every_parse_failure_is_ValueError:
  assumes "parse_expense_message today m = Inl e"
  shows "is_ValueError e
         \<and> replied (handle_expense today create m) = Format_error (exn_str e)
         \<and> logged (handle_expense today create m) = []
         \<and> (\<forall>t. replied (handle_expense today create m) \<noteq> Unexpected_error t)"
  using parse_error [OF assms] handle_expense_parse_error [OF assms] by simp

theorem every_parse_failure_is_ValueError_witness:
  "parse_expense_message \<lparr>year = 2026, month = 11, day = 4\<rparr> ''Coffee, 4, Cafe, Food, 1 cup, to go''
     = Inl (ValueError ''too many values to unpack (expected 5)'')
   \<and> replied (handle_expense \<lparr>year = 2026, month = 11, day = 4\<rparr> (\<lambda>pg. None) ''Coffee, 4, Cafe, Food, 1 cup, to go'')
     = Format_error ''too many values to unpack (expected 5)''"
proof -
  have p: "parse_expense_message \<lparr>year = 2026, month = 11, day = 4\<rparr> ''Coffee, 4, Cafe, Food, 1 cup, to go''
     = Inl (ValueError ''too many values to unpack (expected 5)'')"
    by code_simp
  from every_parse_failure_is_ValueError [OF p, where create = "\<lambda>pg. None"] p
  show ?thesis by simp
qed

end
